theory Spec2Isabelle
  imports Complex_Main
begin

section \<open>Values, errors and building parameters\<close>

text \<open>
  The program computes on IEEE double-precision arrays. The embedding idealises a finite
  double as a \<^typ>\<open>real\<close> number: rounding and overflow are not modelled. The one place
  where the program leaves the finite numbers on finite inputs is a division by zero, for
  which numpy yields \<open>inf\<close> or \<open>nan\<close> (with a RuntimeWarning, not an exception); the
  value \<open>NonFinite\<close> stands for both. In this first embedding the input sequences are
  float arrays of finite values; integer arrays and arrays holding \<open>inf\<close> or \<open>nan\<close> have
  embeddings of their own further down.
\<close>

datatype py_error = KeyError | IndexError | ValueError

datatype npfloat = Finite real | NonFinite

definition np_div :: "real \<Rightarrow> real \<Rightarrow> npfloat" where
  "np_div a b = (if b = 0 then NonFinite else Finite (a / b))"

text \<open>
  An operation whose other operand is finite keeps a non-finite operand non-finite
  (\<open>inf + x\<close>, \<open>x - inf\<close>, \<open>inf * x\<close> and \<open>abs inf\<close> are \<open>inf\<close> or \<open>nan\<close>).
\<close>

fun np_lift :: "(real \<Rightarrow> real) \<Rightarrow> npfloat \<Rightarrow> npfloat" where
  "np_lift f (Finite x) = Finite (f x)"
| "np_lift f NonFinite = NonFinite"

fun bind_err :: "py_error + 'a \<Rightarrow> ('a \<Rightarrow> py_error + 'b) \<Rightarrow> py_error + 'b" where
  "bind_err (Inl e) f = Inl e"
| "bind_err (Inr x) f = f x"

record params =
  heat_capacity :: real
  heat_loss_coefficient :: real
  cop_heating :: real
  cop_cooling :: real
  time_step :: real

text \<open>\<open>building_params[key]\<close>: a missing key raises KeyError.\<close>

definition dict_get :: "(string \<rightharpoonup> real) \<Rightarrow> string \<Rightarrow> py_error + real" where
  "dict_get d k = (case d k of None \<Rightarrow> Inl KeyError | Some v \<Rightarrow> Inr v)"

text \<open>The five reads at the head of \<open>calculate_energy_consumption\<close>, in source order.\<close>

definition extract_params :: "(string \<rightharpoonup> real) \<Rightarrow> py_error + params" where
  "extract_params building_params =
     bind_err (dict_get building_params ''heat_capacity'') (\<lambda>hc.
     bind_err (dict_get building_params ''heat_loss_coefficient'') (\<lambda>hlc.
     bind_err (dict_get building_params ''cop_heating'') (\<lambda>ch.
     bind_err (dict_get building_params ''cop_cooling'') (\<lambda>cc.
     bind_err (dict_get building_params ''time_step'') (\<lambda>ts.
       Inr \<lparr>heat_capacity = hc, heat_loss_coefficient = hlc, cop_heating = ch,
            cop_cooling = cc, time_step = ts\<rparr>)))))"

definition params_dict :: "params \<Rightarrow> (string \<rightharpoonup> real)" where
  "params_dict p =
     [''heat_capacity'' \<mapsto> heat_capacity p,
      ''heat_loss_coefficient'' \<mapsto> heat_loss_coefficient p,
      ''cop_heating'' \<mapsto> cop_heating p,
      ''cop_cooling'' \<mapsto> cop_cooling p,
      ''time_step'' \<mapsto> time_step p]"

section \<open>The thermal energy simulator: \<open>calculate_energy_consumption\<close>\<close>

text \<open>The two arrays the loop updates in place.\<close>

record sim_state =
  energy :: "npfloat list"
  indoor_temp :: "real list"

text \<open>
  The energy charged for a required temperature change. A non-finite change gives a
  non-finite energy in either branch (\<open>heat_capacity * inf / cop\<close>).
\<close>

definition energy_required :: "params \<Rightarrow> npfloat \<Rightarrow> npfloat" where
  "energy_required p temp_change_required =
     (case temp_change_required of
        NonFinite \<Rightarrow> NonFinite
      | Finite r \<Rightarrow>
          if r > 0 then np_div (heat_capacity p * r) (cop_heating p)
          else np_div (heat_capacity p * \<bar>r\<bar>) (cop_cooling p))"

text \<open>
  One pass through the body of \<open>for i in range(1, len(setpoints))\<close>, for \<open>i \<ge> 1\<close>.
  Every indexed read is guarded in the order the source performs it.
\<close>

definition loop_body ::
  "params \<Rightarrow> real list \<Rightarrow> real list \<Rightarrow> nat \<Rightarrow> sim_state \<Rightarrow> py_error + sim_state" where
  "loop_body p setpoints outdoor_temps i st =
     (if length outdoor_temps \<le> i - 1 then Inl IndexError
      else if length (indoor_temp st) \<le> i - 1 then Inl IndexError
      else
        let temp_change_natural =
              np_lift (\<lambda>q. q * time_step p)
                (np_div ((outdoor_temps ! (i - 1) - indoor_temp st ! (i - 1))
                           * heat_loss_coefficient p) (heat_capacity p));
            indoor_temp_natural =
              np_lift (\<lambda>c. indoor_temp st ! (i - 1) + c) temp_change_natural
        in if length setpoints \<le> i then Inl IndexError
           else
             let temp_change_required =
                   np_lift (\<lambda>t. setpoints ! i - t) indoor_temp_natural
             in if length (energy st) \<le> i \<or> length (indoor_temp st) \<le> i
                then Inl IndexError
                else Inr (st\<lparr>energy := (energy st)[i := energy_required p temp_change_required],
                             indoor_temp := (indoor_temp st)[i := setpoints ! i]\<rparr>))"

fun sim_loop ::
  "params \<Rightarrow> real list \<Rightarrow> real list \<Rightarrow> nat list \<Rightarrow> sim_state \<Rightarrow> py_error + sim_state" where
  "sim_loop p setpoints outdoor_temps [] st = Inr st"
| "sim_loop p setpoints outdoor_temps (i # is) st =
     bind_err (loop_body p setpoints outdoor_temps i st)
       (sim_loop p setpoints outdoor_temps is)"

text \<open>
  \<open>np.zeros_like(setpoints)\<close> and \<open>np.full_like(setpoints, setpoints[0])\<close>; the read
  \<open>setpoints[0]\<close> raises IndexError on an empty sequence.
\<close>

definition init_state :: "real list \<Rightarrow> py_error + sim_state" where
  "init_state setpoints =
     (case setpoints of
        [] \<Rightarrow> Inl IndexError
      | s0 # _ \<Rightarrow>
          Inr \<lparr>energy = replicate (length setpoints) (Finite 0),
               indoor_temp = replicate (length setpoints) s0\<rparr>)"

definition simulate_arrays :: "params \<Rightarrow> real list \<Rightarrow> real list \<Rightarrow> py_error + npfloat list" where
  "simulate_arrays p setpoints outdoor_temps =
     bind_err (init_state setpoints) (\<lambda>st0.
     bind_err (sim_loop p setpoints outdoor_temps [1..<length setpoints] st0) (\<lambda>st.
       Inr (energy st)))"

definition calculate_energy_consumption ::
  "real list \<Rightarrow> real list \<Rightarrow> (string \<rightharpoonup> real) \<Rightarrow> py_error + npfloat list" where
  "calculate_energy_consumption setpoints outdoor_temps building_params =
     bind_err (extract_params building_params) (\<lambda>p. simulate_arrays p setpoints outdoor_temps)"

text \<open>The dictionary holds the five parameters of \<open>p\<close> (and possibly other keys).\<close>

definition has_params :: "(string \<rightharpoonup> real) \<Rightarrow> params \<Rightarrow> bool" where
  "has_params building_params p \<longleftrightarrow>
     building_params ''heat_capacity'' = Some (heat_capacity p) \<and>
     building_params ''heat_loss_coefficient'' = Some (heat_loss_coefficient p) \<and>
     building_params ''cop_heating'' = Some (cop_heating p) \<and>
     building_params ''cop_cooling'' = Some (cop_cooling p) \<and>
     building_params ''time_step'' = Some (time_step p)"

definition positive_params :: "params \<Rightarrow> bool" where
  "positive_params p \<longleftrightarrow>
     0 < heat_capacity p \<and> 0 < heat_loss_coefficient p \<and> 0 < cop_heating p \<and>
     0 < cop_cooling p \<and> 0 < time_step p"

text \<open>The building of the specification's concrete scenario.\<close>

definition scenario_params :: params where
  "scenario_params =
     \<lparr>heat_capacity = 10, heat_loss_coefficient = 2, cop_heating = 3, cop_cooling = 4,
      time_step = 1\<rparr>"

subsection \<open>The recurrence as the specification words it\<close>

text \<open>
  \<open>indoor_temp[0] = setpoints[0]\<close> and \<open>indoor_temp[i] = setpoints[i]\<close> after step \<open>i\<close>;
  \<open>energy[0] = 0\<close> and, for \<open>i \<ge> 1\<close>, the drift, the natural indoor temperature, the
  required correction \<open>delta\<close> and the energy of the heating or cooling branch.
\<close>

fun spec_indoor_temp :: "real list \<Rightarrow> nat \<Rightarrow> real" where
  "spec_indoor_temp setpoints 0 = setpoints ! 0"
| "spec_indoor_temp setpoints (Suc i) = setpoints ! Suc i"

definition spec_energy :: "params \<Rightarrow> real list \<Rightarrow> real list \<Rightarrow> nat \<Rightarrow> real" where
  "spec_energy p setpoints outdoor_temps i =
     (if i = 0 then 0
      else
        let drift = (outdoor_temps ! (i - 1) - spec_indoor_temp setpoints (i - 1))
                      * heat_loss_coefficient p / heat_capacity p * time_step p;
            indoor_natural = spec_indoor_temp setpoints (i - 1) + drift;
            delta = setpoints ! i - indoor_natural
        in if delta > 0 then heat_capacity p * delta / cop_heating p
           else heat_capacity p * \<bar>delta\<bar> / cop_cooling p)"

subsection \<open>The memoryless form\<close>

text \<open>
  The energy of one step as a function of the previous setpoint, the previous outdoor
  temperature, the current setpoint and the building parameters only.
\<close>

definition step_energy :: "params \<Rightarrow> real \<Rightarrow> real \<Rightarrow> real \<Rightarrow> npfloat" where
  "step_energy p s_prev o_prev s_cur =
     energy_required p
       (np_lift (\<lambda>t. s_cur - t)
          (np_lift (\<lambda>c. s_prev + c)
             (np_lift (\<lambda>q. q * time_step p)
                (np_div ((o_prev - s_prev) * heat_loss_coefficient p) (heat_capacity p)))))"

text \<open>The stateless computation over adjacent elements of the two sequences.\<close>

definition vectorized :: "params \<Rightarrow> real list \<Rightarrow> real list \<Rightarrow> npfloat list" where
  "vectorized p setpoints outdoor_temps =
     Finite 0 # map (\<lambda>(s_prev, s_cur, o_prev). step_energy p s_prev o_prev s_cur)
                  (zip setpoints (zip (tl setpoints) outdoor_temps))"

subsection \<open>The arrays after \<open>k\<close> passes of the loop\<close>

definition energy_after :: "params \<Rightarrow> real list \<Rightarrow> real list \<Rightarrow> nat \<Rightarrow> npfloat list" where
  "energy_after p sp ot k =
     map (\<lambda>j. if 1 \<le> j \<and> j \<le> k
              then step_energy p (sp ! (j - 1)) (ot ! (j - 1)) (sp ! j)
              else Finite 0) [0..<length sp]"

definition indoor_after :: "real list \<Rightarrow> nat \<Rightarrow> real list" where
  "indoor_after sp k = map (\<lambda>j. if j \<le> k then sp ! j else sp ! 0) [0..<length sp]"

definition state_after :: "params \<Rightarrow> real list \<Rightarrow> real list \<Rightarrow> nat \<Rightarrow> sim_state" where
  "state_after p sp ot k = \<lparr>energy = energy_after p sp ot k, indoor_temp = indoor_after sp k\<rparr>"

section \<open>The simulator on an integer setpoint array\<close>









section \<open>The simulator on arrays that may hold non-finite values\<close>



















section \<open>The scenario comparison: \<open>simulate_control\<close> and \<open>plot_results\<close>\<close>

text \<open>
  The columns of the \<open>simulation_data\<close> frame that the comparison reads and writes. The
  window has one row per element of \<open>outdoor_temp\<close>.
\<close>

record simulation_data =
  outdoor_temp :: "real list"
  mlp_setpoint :: "real list"
  lstm_setpoint :: "real list"
  mlp_energy :: "real list"
  lstm_energy :: "real list"
  baseline_energy :: "real list"

text \<open>
  \<open>frame[name] = values\<close> for an array: pandas raises ValueError unless the array has one
  value per row.
\<close>

definition set_column :: "nat \<Rightarrow> real list \<Rightarrow> py_error + real list" where
  "set_column n_rows vals = (if length vals = n_rows then Inr vals else Inl ValueError)"

text \<open>
  The adjustment of the LSTM predictions: a shorter sequence is padded on the left with
  \<open>lstm_predictions[0]\<close> (IndexError when there is none), any other is cut to the window.
\<close>

definition lstm_column :: "nat \<Rightarrow> real list \<Rightarrow> py_error + real list" where
  "lstm_column n_rows lstm_predictions =
     (if length lstm_predictions < n_rows then
        (case lstm_predictions of
           [] \<Rightarrow> Inl IndexError
         | first # _ \<Rightarrow>
             set_column n_rows
               (replicate (n_rows - length lstm_predictions) first @ lstm_predictions))
      else set_column n_rows (take n_rows lstm_predictions))"

text \<open>\<open>np.abs(setpoint - outdoor_temp) * 0.1\<close>, row by row.\<close>

definition simple_energy :: "real list \<Rightarrow> real list \<Rightarrow> real list" where
  "simple_energy setpoint outdoor = map (\<lambda>(s, t). \<bar>s - t\<bar> * 0.1) (zip setpoint outdoor)"

text \<open>
  \<open>simulate_control\<close> from the point where the two predictors have answered: the window's
  outdoor temperatures and the two prediction arrays are the inputs (the predictors are
  trained networks, outside this development).
\<close>

definition simulate_control ::
  "real list \<Rightarrow> real list \<Rightarrow> real list \<Rightarrow> py_error + simulation_data" where
  "simulate_control outdoor mlp_predictions lstm_predictions =
     bind_err (set_column (length outdoor) mlp_predictions) (\<lambda>mlp.
     bind_err (lstm_column (length outdoor) lstm_predictions) (\<lambda>lstm.
       Inr \<lparr>outdoor_temp = outdoor,
            mlp_setpoint = mlp,
            lstm_setpoint = lstm,
            mlp_energy = simple_energy mlp outdoor,
            lstm_energy = simple_energy lstm outdoor,
            baseline_energy = map (\<lambda>t. \<bar>22 - t\<bar> * 0.1) outdoor\<rparr>))"

text \<open>
  \<open>plot_results\<close>: the three totals it returns, and the two savings percentages it prints
  (before their formatting to two decimals).
\<close>

record energy_results =
  mlp_total :: real
  lstm_total :: real
  baseline_total :: real
  mlp_savings :: npfloat
  lstm_savings :: npfloat

definition savings_pct :: "real \<Rightarrow> real \<Rightarrow> npfloat" where
  "savings_pct model_total baseline =
     np_lift (\<lambda>q. (1 - q) * 100) (np_div model_total baseline)"

definition plot_results :: "simulation_data \<Rightarrow> energy_results" where
  "plot_results d =
     \<lparr>mlp_total = sum_list (mlp_energy d),
      lstm_total = sum_list (lstm_energy d),
      baseline_total = sum_list (baseline_energy d),
      mlp_savings = savings_pct (sum_list (mlp_energy d)) (sum_list (baseline_energy d)),
      lstm_savings = savings_pct (sum_list (lstm_energy d)) (sum_list (baseline_energy d))\<rparr>"

section \<open>The predictions that reach \<open>simulate_control\<close>\<close>

text \<open>
  The trained networks are outside this development. \<open>mlp_net\<close> stands for the MLP with
  its two scalers, from one feature row to one setpoint; \<open>lstm_net\<close> stands for the LSTM
  with its scalers, from one window of rows to one setpoint. \<open>predict\<close> keeps the batch
  structure of the source: the MLP answers once per row, the LSTM once per window
  \<open>X[i : i + sequence_length]\<close> for \<open>i\<close> in \<open>range(len(X) - sequence_length + 1)\<close>. The scaler
  refuses an array without rows, and the network a batch without windows (ValueError).
\<close>

definition predict_mlp :: "('x \<Rightarrow> real) \<Rightarrow> 'x list \<Rightarrow> py_error + real list" where
  "predict_mlp mlp_net X = (if X = [] then Inl ValueError else Inr (map mlp_net X))"

definition predict_lstm ::
  "('x list \<Rightarrow> real) \<Rightarrow> nat \<Rightarrow> 'x list \<Rightarrow> py_error + real list" where
  "predict_lstm lstm_net sequence_length X =
     (if X = [] then Inl ValueError
      else
        let X_seq = map (\<lambda>i. take sequence_length (drop i X))
                      [0..<length X + 1 - sequence_length]
        in if X_seq = [] then Inl ValueError else Inr (map lstm_net X_seq))"

text \<open>
  \<open>simulate_control(days)\<close> as a whole. A row of \<open>data\<close> pairs the outdoor temperature of a
  sample with its feature row; \<open>start_idx\<close> is the number that
  \<open>np.random.randint(0, len(data) - 24 * days)\<close> returns (ValueError when that bound is not
  positive); the window is \<open>data[start_idx : start_idx + 24 * days]\<close>, and both predictors
  are asked about the same window.
\<close>

definition simulate_control_days ::
  "('x \<Rightarrow> real) \<Rightarrow> ('x list \<Rightarrow> real) \<Rightarrow> (real \<times> 'x) list \<Rightarrow> nat \<Rightarrow> nat
     \<Rightarrow> py_error + simulation_data" where
  "simulate_control_days mlp_net lstm_net data start_idx days =
     (if length data \<le> 24 * days then Inl ValueError
      else
        let rows = take (24 * days) (drop start_idx data);
            X_sim = map snd rows
        in bind_err (predict_mlp mlp_net X_sim) (\<lambda>mlp_predictions.
           bind_err (predict_lstm lstm_net 24 X_sim) (\<lambda>lstm_predictions.
             simulate_control (map fst rows) mlp_predictions lstm_predictions)))"

section \<open>The synthetic dataset: occupancy in \<open>load_data\<close>\<close>

record timestamp =
  dayofweek :: nat
  hour :: nat

text \<open>
  \<open>pd.date_range('2024-01-01', '2024-12-31 23:00:00', freq='H')\<close>: the 366 days of 2024,
  hour by hour, starting on a Monday (\<open>dayofweek = 0\<close>).
\<close>

definition n_samples :: nat where
  "n_samples = 8784"

definition timestamps :: "timestamp list" where
  "timestamps = map (\<lambda>i. \<lparr>dayofweek = (i div 24) mod 7, hour = i mod 24\<rparr>) [0..<n_samples]"

text \<open>
  The value stored for one timestamp, given the number \<open>r\<close> that \<open>np.random.random()\<close>
  returns for it.
\<close>

definition occupancy_value :: "timestamp \<Rightarrow> real \<Rightarrow> real" where
  "occupancy_value ts r =
     (if dayofweek ts < 5 then
        (if 8 \<le> hour ts \<and> hour ts < 18 then 0.7 + 0.3 * r
         else if (7 \<le> hour ts \<and> hour ts < 8) \<or> (18 \<le> hour ts \<and> hour ts < 19)
              then 0.3 + 0.3 * r
         else 0.1 * r)
      else 0.2 * r)"

text \<open>
  \<open>for i, timestamp in enumerate(timestamps): occupancy[i] = ...\<close>; \<open>rnd i\<close> is the draw of
  pass \<open>i\<close>.
\<close>

fun occupancy_loop :: "(nat \<Rightarrow> real) \<Rightarrow> (nat \<times> timestamp) list \<Rightarrow> real list \<Rightarrow> real list" where
  "occupancy_loop rnd [] occupancy = occupancy"
| "occupancy_loop rnd ((i, ts) # rest) occupancy =
     occupancy_loop rnd rest (occupancy[i := occupancy_value ts (rnd i)])"

definition load_data_occupancy :: "(nat \<Rightarrow> real) \<Rightarrow> real list" where
  "load_data_occupancy rnd =
     occupancy_loop rnd (enumerate 0 timestamps) (replicate n_samples 0)"

text \<open>The range the specification gives for a calendar position, as (lower, upper).\<close>

definition spec_occupancy_range :: "timestamp \<Rightarrow> real \<times> real" where
  "spec_occupancy_range ts =
     (if dayofweek ts < 5 then
        (if 8 \<le> hour ts \<and> hour ts < 18 then (0.7, 1.0)
         else if (7 \<le> hour ts \<and> hour ts < 8) \<or> (18 \<le> hour ts \<and> hour ts < 19) then (0.3, 0.6)
         else (0, 0.1))
      else (0, 0.2))"

section \<open>Properties of the simulator\<close>

lemma length_energy_after: "length (energy_after p sp ot k) = length sp"
  by (simp add: energy_after_def)

lemma length_indoor_after: "length (indoor_after sp k) = length sp"
  by (simp add: indoor_after_def)

lemma init_state_after:
  "sp \<noteq> [] \<Longrightarrow> init_state sp = Inr (state_after p sp ot 0)"
proof (cases sp)
  case Nil
  assume "sp \<noteq> []"
  with Nil show ?thesis by simp
next
  case (Cons s0 rest)
  have e: "replicate (length sp) (Finite 0) = energy_after p sp ot 0"
    by (rule nth_equalityI) (auto simp: energy_after_def)
  have s0: "sp ! 0 = s0" using Cons by simp
  have "replicate (length sp) (sp ! 0) = indoor_after sp 0"
    by (rule nth_equalityI) (auto simp: indoor_after_def)
  then have t: "replicate (length sp) s0 = indoor_after sp 0"
    by (simp only: s0)
  show ?thesis
    using Cons e t by (simp add: init_state_def state_after_def)
qed

lemma energy_after_Suc:
  assumes "Suc k < length sp"
  shows "(energy_after p sp ot k)[Suc k := step_energy p (sp ! k) (ot ! k) (sp ! Suc k)]
           = energy_after p sp ot (Suc k)"
proof (rule nth_equalityI)
  show "length ((energy_after p sp ot k)[Suc k := step_energy p (sp ! k) (ot ! k) (sp ! Suc k)])
        = length (energy_after p sp ot (Suc k))"
    by (simp add: energy_after_def)
next
  fix j
  assume "j < length ((energy_after p sp ot k)[Suc k := step_energy p (sp ! k) (ot ! k) (sp ! Suc k)])"
  then have j: "j < length sp" by (simp add: energy_after_def)
  show "(energy_after p sp ot k)[Suc k := step_energy p (sp ! k) (ot ! k) (sp ! Suc k)] ! j
        = energy_after p sp ot (Suc k) ! j"
  proof (cases "j = Suc k")
    case True
    with j show ?thesis by (simp add: energy_after_def)
  next
    case False
    with j show ?thesis by (auto simp: energy_after_def)
  qed
qed

lemma indoor_after_Suc:
  assumes "Suc k < length sp"
  shows "(indoor_after sp k)[Suc k := sp ! Suc k] = indoor_after sp (Suc k)"
proof (rule nth_equalityI)
  show "length ((indoor_after sp k)[Suc k := sp ! Suc k]) = length (indoor_after sp (Suc k))"
    by (simp add: indoor_after_def)
next
  fix j
  assume "j < length ((indoor_after sp k)[Suc k := sp ! Suc k])"
  then have j: "j < length sp" by (simp add: indoor_after_def)
  show "(indoor_after sp k)[Suc k := sp ! Suc k] ! j = indoor_after sp (Suc k) ! j"
  proof (cases "j = Suc k")
    case True
    with j show ?thesis by (simp add: indoor_after_def)
  next
    case False
    with j show ?thesis by (auto simp: indoor_after_def)
  qed
qed

lemma indoor_after_nth: "k < length sp \<Longrightarrow> indoor_after sp k ! k = sp ! k"
  by (simp add: indoor_after_def)

lemma loop_body_after:
  assumes "Suc k < length sp" and "k < length ot"
  shows "loop_body p sp ot (Suc k) (state_after p sp ot k) = Inr (state_after p sp ot (Suc k))"
proof -
  have k: "k < length sp" using assms by simp
  show ?thesis
    using assms
    by (simp add: loop_body_def state_after_def Let_def length_energy_after length_indoor_after
        indoor_after_nth [OF k] energy_after_Suc [unfolded step_energy_def] indoor_after_Suc)
qed

lemma sim_loop_append:
  "sim_loop p sp ot (is @ js) st = bind_err (sim_loop p sp ot is st) (sim_loop p sp ot js)"
proof (induction "is" arbitrary: st)
  case Nil
  show ?case by simp
next
  case (Cons i "is")
  show ?case
    by (cases "loop_body p sp ot i st") (simp_all add: Cons.IH)
qed

lemma sim_loop_after:
  "k < length sp \<Longrightarrow> k \<le> length ot \<Longrightarrow>
   sim_loop p sp ot [1..<Suc k] (state_after p sp ot 0) = Inr (state_after p sp ot k)"
proof (induction k)
  case 0
  show ?case by simp
next
  case (Suc k)
  have u: "[1..<Suc (Suc k)] = [1..<Suc k] @ [Suc k]" by simp
  have ih: "sim_loop p sp ot [1..<Suc k] (state_after p sp ot 0) = Inr (state_after p sp ot k)"
    using Suc by simp
  have b: "loop_body p sp ot (Suc k) (state_after p sp ot k) = Inr (state_after p sp ot (Suc k))"
    using Suc.prems by (intro loop_body_after) simp_all
  show ?case
    by (simp only: u sim_loop_append ih bind_err.simps sim_loop.simps b)
qed

lemma extract_params_ok: "has_params bp p \<Longrightarrow> extract_params bp = Inr p"
  by (simp add: has_params_def extract_params_def dict_get_def)

lemma has_params_dict: "has_params (params_dict p) p"
  by (simp add: has_params_def params_dict_def)

lemma energy_state_after: "energy (state_after p sp ot k) = energy_after p sp ot k"
  by (simp add: state_after_def)

lemma simulate_arrays_ok:
  assumes "sp \<noteq> []" and "length sp - 1 \<le> length ot"
  shows "simulate_arrays p sp ot = Inr (energy_after p sp ot (length sp - 1))"
proof -
  have n: "length sp - 1 < length sp" using assms(1) by (cases sp) simp_all
  have "Suc (length sp - 1) = length sp" using n by simp
  then have u: "[1..<length sp] = [1..<Suc (length sp - 1)]" by (simp only:)
  have l: "sim_loop p sp ot [1..<length sp] (state_after p sp ot 0)
           = Inr (state_after p sp ot (length sp - 1))"
    unfolding u using n assms(2) by (rule sim_loop_after)
  show ?thesis
    using l
    by (simp add: simulate_arrays_def init_state_after [OF assms(1), of p ot] energy_state_after)
qed

lemma simulate_arrays_empty: "simulate_arrays p [] ot = Inl IndexError"
  by (simp add: simulate_arrays_def init_state_def)

lemma simulate_arrays_short:
  assumes "sp \<noteq> []" and "length ot < length sp - 1"
  shows "simulate_arrays p sp ot = Inl IndexError"
proof -
  let ?m = "length ot"
  have m: "Suc ?m < length sp" using assms(2) by simp
  have u: "[1..<length sp] = [1..<Suc ?m] @ (Suc ?m # [Suc (Suc ?m)..<length sp])"
    using m by (metis le_add1 plus_1_eq_Suc upt_add_eq_append upt_conv_Cons
        le_Suc_ex less_imp_le_nat)
  have l: "sim_loop p sp ot [1..<Suc ?m] (state_after p sp ot 0) = Inr (state_after p sp ot ?m)"
    using m by (intro sim_loop_after) simp_all
  have b: "loop_body p sp ot (Suc ?m) (state_after p sp ot ?m) = Inl IndexError"
    by (simp add: loop_body_def)
  have "sim_loop p sp ot [1..<length sp] (state_after p sp ot 0) = Inl IndexError"
    by (simp only: u sim_loop_append l bind_err.simps sim_loop.simps b)
  then show ?thesis
    by (simp add: simulate_arrays_def init_state_after [OF assms(1), of p ot])
qed


lemma energy_after_vectorized:
  assumes "sp \<noteq> []" and "length sp - 1 \<le> length ot"
  shows "energy_after p sp ot (length sp - 1) = vectorized p sp ot"
proof (rule nth_equalityI)
  show "length (energy_after p sp ot (length sp - 1)) = length (vectorized p sp ot)"
    using assms by (cases sp) (simp_all add: energy_after_def vectorized_def)
next
  fix j
  assume "j < length (energy_after p sp ot (length sp - 1))"
  then have j: "j < length sp" by (simp add: energy_after_def)
  show "energy_after p sp ot (length sp - 1) ! j = vectorized p sp ot ! j"
  proof (cases j)
    case 0
    with j show ?thesis by (simp add: energy_after_def vectorized_def)
  next
    case (Suc i)
    have i: "i < length sp" "i < length (tl sp)" "i < length ot"
      using j Suc assms(2) by simp_all
    have t: "tl sp ! i = sp ! Suc i"
      using j Suc by (simp add: nth_tl)
    show ?thesis
      using j Suc i t by (simp add: energy_after_def vectorized_def)
  qed
qed

lemma calc_has_params:
  "has_params bp p \<Longrightarrow> calculate_energy_consumption sp ot bp = simulate_arrays p sp ot"
  by (simp add: calculate_energy_consumption_def extract_params_ok)

lemma step_energy_positive:
  assumes "heat_capacity p \<noteq> 0" and "cop_heating p \<noteq> 0" and "cop_cooling p \<noteq> 0"
  shows "step_energy p s_prev o_prev s_cur =
     Finite (let drift = (o_prev - s_prev) * heat_loss_coefficient p / heat_capacity p * time_step p;
                 indoor_natural = s_prev + drift;
                 delta = s_cur - indoor_natural
             in if delta > 0 then heat_capacity p * delta / cop_heating p
                else heat_capacity p * \<bar>delta\<bar> / cop_cooling p)"
  using assms by (simp add: step_energy_def np_div_def energy_required_def Let_def)

lemma spec_indoor_temp_eq: "spec_indoor_temp sp i = sp ! i"
  by (cases i) simp_all

lemma energy_after_spec:
  assumes "heat_capacity p \<noteq> 0" and "cop_heating p \<noteq> 0" and "cop_cooling p \<noteq> 0"
  shows "energy_after p sp ot (length sp - 1)
         = map (\<lambda>i. Finite (spec_energy p sp ot i)) [0..<length sp]"
  unfolding energy_after_def
proof (rule map_cong [OF refl])
  fix j
  assume "j \<in> set [0..<length sp]"
  then have j: "j < length sp" by simp
  show "(if 1 \<le> j \<and> j \<le> length sp - 1
         then step_energy p (sp ! (j - 1)) (ot ! (j - 1)) (sp ! j) else Finite 0)
        = Finite (spec_energy p sp ot j)"
  proof (cases "j = 0")
    case True
    then show ?thesis by (simp add: spec_energy_def)
  next
    case False
    with j have "1 \<le> j \<and> j \<le> length sp - 1" by simp
    with False show ?thesis
      by (simp add: step_energy_positive [OF assms] spec_energy_def spec_indoor_temp_eq Let_def)
  qed
qed

lemma scenario_positive: "positive_params scenario_params"
  by (simp add: positive_params_def scenario_params_def)

section \<open>Claims about the simulator\<close>

text \<open>
  C1. For equal-length sequences of length \<open>n \<ge> 1\<close> and positive building parameters,
  \<open>calculate_energy_consumption\<close> returns the energy sequence of the stated recurrence:
  \<open>energy[0] = 0\<close>, and for \<open>1 \<le> i < n\<close> the value obtained from the drift, the
  natural indoor temperature and the correction \<open>delta\<close>, through the heating branch
  when \<open>delta > 0\<close> and the cooling branch otherwise; the indoor-temperature array the
  loop leaves behind holds \<open>setpoints[i]\<close> at every index. Finite doubles are read as
  real numbers.
\<close>

theorem recurrence_as_stated:
  assumes "has_params building_params p" and "positive_params p"
    and "length setpoints = length outdoor_temps" and "1 \<le> length setpoints"
  shows "calculate_energy_consumption setpoints outdoor_temps building_params
           = Inr (map (\<lambda>i. Finite (spec_energy p setpoints outdoor_temps i))
                    [0..<length setpoints])
         \<and> bind_err (init_state setpoints)
              (sim_loop p setpoints outdoor_temps [1..<length setpoints])
           = Inr \<lparr>energy = map (\<lambda>i. Finite (spec_energy p setpoints outdoor_temps i))
                              [0..<length setpoints],
                  indoor_temp = map (spec_indoor_temp setpoints) [0..<length setpoints]\<rparr>"
proof -
  have ne: "setpoints \<noteq> []" using assms(4) by auto
  have le: "length setpoints - 1 \<le> length outdoor_temps" using assms(3) by simp
  have nz: "heat_capacity p \<noteq> 0" "cop_heating p \<noteq> 0" "cop_cooling p \<noteq> 0"
    using assms(2) by (simp_all add: positive_params_def)
  have e: "energy_after p setpoints outdoor_temps (length setpoints - 1)
           = map (\<lambda>i. Finite (spec_energy p setpoints outdoor_temps i)) [0..<length setpoints]"
    by (rule energy_after_spec [OF nz])
  have n: "length setpoints - 1 < length setpoints" using assms(4) by simp
  have "Suc (length setpoints - 1) = length setpoints" using n by simp
  then have u: "[1..<length setpoints] = [1..<Suc (length setpoints - 1)]" by (simp only:)
  have l: "sim_loop p setpoints outdoor_temps [1..<length setpoints]
             (state_after p setpoints outdoor_temps 0)
           = Inr (state_after p setpoints outdoor_temps (length setpoints - 1))"
    unfolding u using n le by (rule sim_loop_after)
  have t: "indoor_after setpoints (length setpoints - 1)
           = map (spec_indoor_temp setpoints) [0..<length setpoints]"
    unfolding indoor_after_def by (rule map_cong [OF refl]) (auto simp: spec_indoor_temp_eq)
  have first: "calculate_energy_consumption setpoints outdoor_temps building_params
           = Inr (map (\<lambda>i. Finite (spec_energy p setpoints outdoor_temps i))
                    [0..<length setpoints])"
    by (simp only: calc_has_params [OF assms(1)] simulate_arrays_ok [OF ne le] e)
  have second: "bind_err (init_state setpoints)
              (sim_loop p setpoints outdoor_temps [1..<length setpoints])
           = Inr \<lparr>energy = map (\<lambda>i. Finite (spec_energy p setpoints outdoor_temps i))
                              [0..<length setpoints],
                  indoor_temp = map (spec_indoor_temp setpoints) [0..<length setpoints]\<rparr>"
  proof -
    have "bind_err (init_state setpoints)
              (sim_loop p setpoints outdoor_temps [1..<length setpoints])
          = Inr (state_after p setpoints outdoor_temps (length setpoints - 1))"
      by (simp only: init_state_after [OF ne, of p outdoor_temps] bind_err.simps l)
    also have "state_after p setpoints outdoor_temps (length setpoints - 1)
          = \<lparr>energy = map (\<lambda>i. Finite (spec_energy p setpoints outdoor_temps i))
                              [0..<length setpoints],
             indoor_temp = map (spec_indoor_temp setpoints) [0..<length setpoints]\<rparr>"
      by (simp only: state_after_def e t)
    finally show ?thesis .
  qed
  from first second show ?thesis by (rule conjI)
qed

theorem recurrence_as_stated_witness:
  "has_params (params_dict scenario_params) scenario_params \<and> positive_params scenario_params
   \<and> length [21, 20, 21 :: real] = length [10, 30, 10 :: real] \<and> 1 \<le> length [21, 20, 21 :: real]
   \<and> calculate_energy_consumption [21, 20, 21] [10, 30, 10] (params_dict scenario_params)
       = Inr [Finite 0, Finite 4, Finite (5 / 2)]"
proof -
  have c: "calculate_energy_consumption [21, 20, 21] [10, 30, 10] (params_dict scenario_params)
       = Inr [Finite 0, Finite 4, Finite (5 / 2)]"
    using recurrence_as_stated [OF has_params_dict scenario_positive,
        of "[21, 20, 21]" "[10, 30, 10]"]
    by (simp add: spec_energy_def scenario_params_def upt_rec)
  show ?thesis
    using c by (simp add: has_params_dict scenario_positive)
qed

lemma calc_cases:
  assumes "has_params bp p"
  shows "calculate_energy_consumption sp ot bp =
           (if sp = [] \<or> length ot < length sp - 1 then Inl IndexError
            else Inr (vectorized p sp ot))"
proof (cases "sp = []")
  case True
  then show ?thesis by (simp add: calc_has_params [OF assms] simulate_arrays_empty)
next
  case ne: False
  show ?thesis
  proof (cases "length ot < length sp - 1")
    case True
    with ne show ?thesis
      by (simp add: calc_has_params [OF assms] simulate_arrays_short)
  next
    case False
    then have le: "length sp - 1 \<le> length ot" by simp
    have "simulate_arrays p sp ot = Inr (vectorized p sp ot)"
      by (simp only: simulate_arrays_ok [OF ne le] energy_after_vectorized [OF ne le])
    with ne False show ?thesis
      by (simp add: calc_has_params [OF assms])
  qed
qed

lemma length_vectorized:
  "sp \<noteq> [] \<Longrightarrow> length sp - 1 \<le> length ot \<Longrightarrow> length (vectorized p sp ot) = length sp"
  by (cases sp) (simp_all add: vectorized_def)

lemma vectorized_nth:
  assumes "1 \<le> i" and "i < length sp" and "length sp - 1 \<le> length ot"
  shows "vectorized p sp ot ! i = step_energy p (sp ! (i - 1)) (ot ! (i - 1)) (sp ! i)"
proof -
  obtain j where j: "i = Suc j" using assms(1) by (cases i) auto
  have b: "j < length sp" "j < length (tl sp)" "j < length ot"
    using j assms(2,3) by simp_all
  have t: "tl sp ! j = sp ! Suc j" using j assms(2) by (simp add: nth_tl)
  show ?thesis using j b t by (simp add: vectorized_def)
qed



text \<open>
  C9. The sequential loop equals a memoryless computation: whenever the simulator returns,
  its result is the stateless map over adjacent elements, and for every \<open>i \<ge> 1\<close> the
  entry \<open>energy[i]\<close> is \<open>step_energy\<close> applied to \<open>setpoints[i-1]\<close>,
  \<open>outdoor_temps[i-1]\<close>, \<open>setpoints[i]\<close> and the building parameters alone.
\<close>

theorem loop_is_memoryless:
  assumes "has_params building_params p" and "setpoints \<noteq> []"
    and "length setpoints - 1 \<le> length outdoor_temps"
  shows "calculate_energy_consumption setpoints outdoor_temps building_params
           = Inr (vectorized p setpoints outdoor_temps)
         \<and> (\<forall>i. 1 \<le> i \<and> i < length setpoints \<longrightarrow>
               vectorized p setpoints outdoor_temps ! i
                 = step_energy p (setpoints ! (i - 1)) (outdoor_temps ! (i - 1)) (setpoints ! i))"
  using assms by (simp add: calc_cases [OF assms(1)] vectorized_nth)

theorem loop_is_memoryless_witness:
  "has_params (params_dict scenario_params) scenario_params \<and> [21, 20, 21 :: real] \<noteq> []
   \<and> length [21, 20, 21 :: real] - 1 \<le> length [10, 30, 10 :: real]
   \<and> calculate_energy_consumption [21, 20, 21] [10, 30, 10] (params_dict scenario_params)
       = Inr (vectorized scenario_params [21, 20, 21] [10, 30, 10])
   \<and> vectorized scenario_params [21, 20, 21] [10, 30, 10] ! 2
       = step_energy scenario_params 20 30 21
   \<and> step_energy scenario_params 20 30 21 = Finite (5 / 2)"
proof -
  have h: "[21, 20, 21 :: real] \<noteq> []"
    "length [21, 20, 21 :: real] - 1 \<le> length [10, 30, 10 :: real]" by simp_all
  note m = loop_is_memoryless [OF has_params_dict h, of scenario_params]
  have i: "vectorized scenario_params [21, 20, 21] [10, 30, 10] ! 2
       = step_energy scenario_params 20 30 21"
    using m by (simp add: numeral_2_eq_2)
  have s: "step_energy scenario_params 20 30 21 = Finite (5 / 2)"
    by (simp add: step_energy_def scenario_params_def np_div_def energy_required_def)
  show ?thesis using m i s h has_params_dict by simp
qed















text \<open>
  C7. For a valid input (the contract's preconditions: equal lengths, at least one sample,
  positive parameters) the simulator returns a sequence as long as the setpoint sequence;
  a one-element input returns \<open>[0.0]\<close>, and \<open>range(1, 1)\<close> is empty, so the loop body
  does not run.
\<close>

theorem output_length:
  assumes "has_params building_params p" and "positive_params p"
    and "length setpoints = length outdoor_temps" and "1 \<le> length setpoints"
  shows "(\<exists>es. calculate_energy_consumption setpoints outdoor_temps building_params = Inr es
               \<and> length es = length setpoints)
         \<and> calculate_energy_consumption [s] [t] building_params = Inr [Finite 0]
         \<and> [1..<length [s]] = []"
proof -
  have ne: "setpoints \<noteq> []" using assms(4) by auto
  have le: "length setpoints - 1 \<le> length outdoor_temps" using assms(3) by simp
  have "calculate_energy_consumption setpoints outdoor_temps building_params
        = Inr (vectorized p setpoints outdoor_temps)"
    using ne le by (simp add: calc_cases [OF assms(1)])
  moreover have "length (vectorized p setpoints outdoor_temps) = length setpoints"
    by (rule length_vectorized [OF ne le])
  moreover have "calculate_energy_consumption [s] [t] building_params = Inr [Finite 0]"
    by (simp add: calc_cases [OF assms(1)] vectorized_def)
  ultimately show ?thesis by simp
qed

theorem output_length_witness:
  "has_params (params_dict scenario_params) scenario_params \<and> positive_params scenario_params
   \<and> length [21, 20, 21 :: real] = length [10, 30, 10 :: real] \<and> 1 \<le> length [21, 20, 21 :: real]
   \<and> (\<exists>es. calculate_energy_consumption [21, 20, 21] [10, 30, 10] (params_dict scenario_params)
              = Inr es \<and> length es = length [21, 20, 21 :: real])
   \<and> calculate_energy_consumption [21] [10] (params_dict scenario_params) = Inr [Finite 0]"
proof -
  have h: "length [21, 20, 21 :: real] = length [10, 30, 10 :: real]"
    "1 \<le> length [21, 20, 21 :: real]" by simp_all
  from output_length [OF has_params_dict scenario_positive h, of 21 10]
  show ?thesis using has_params_dict scenario_positive by simp
qed

text \<open>
  C5, as stated, fails: the simulator checks neither the signs of the parameters nor the
  lengths. A negative \<open>cop_heating\<close> gives a negative energy, a zero \<open>heat_capacity\<close> a
  non-finite one, and a longer outdoor sequence is accepted; nothing is raised.
\<close>

theorem no_validation_counterexample:
  "calculate_energy_consumption [21, 21] [10, 10]
     (params_dict (scenario_params\<lparr>cop_heating := - 3\<rparr>))
     = Inr [Finite 0, Finite (- (22 / 3))]
   \<and> \<not> 0 < cop_heating (scenario_params\<lparr>cop_heating := - 3\<rparr>)
   \<and> calculate_energy_consumption [21, 21] [10, 10]
     (params_dict (scenario_params\<lparr>heat_capacity := 0\<rparr>))
     = Inr [Finite 0, NonFinite]
   \<and> calculate_energy_consumption [21, 21] [10, 10, 10] (params_dict scenario_params)
     = Inr [Finite 0, Finite (22 / 3)]
   \<and> length [21, 21 :: real] \<noteq> length [10, 10, 10 :: real]"
  by (simp add: calculate_energy_consumption_def extract_params_def dict_get_def params_dict_def
      scenario_params_def simulate_arrays_def init_state_def loop_body_def Let_def np_div_def
      energy_required_def upt_rec)

text \<open>
  C5, amended. With the five parameters present, whatever their signs, the simulator
  raises IndexError, and returns nothing, exactly when \<open>setpoints\<close> is empty or
  \<open>outdoor_temps\<close> has fewer than \<open>len(setpoints) - 1\<close> elements; otherwise it returns the
  energy sequence, of \<open>len(setpoints)\<close> elements, also when the two lengths differ.
\<close>

theorem errors_raised:
  assumes "has_params building_params p"
  shows "calculate_energy_consumption setpoints outdoor_temps building_params =
           (if setpoints = [] \<or> length outdoor_temps < length setpoints - 1
            then Inl IndexError
            else Inr (vectorized p setpoints outdoor_temps))
         \<and> (setpoints \<noteq> [] \<and> length setpoints - 1 \<le> length outdoor_temps \<longrightarrow>
              length (vectorized p setpoints outdoor_temps) = length setpoints)"
  by (simp add: calc_cases [OF assms] length_vectorized)

theorem errors_raised_witness:
  "has_params (params_dict scenario_params) scenario_params
   \<and> calculate_energy_consumption [21, 21, 21] [10] (params_dict scenario_params)
       = Inl IndexError
   \<and> calculate_energy_consumption [21] [] (params_dict scenario_params) = Inr [Finite 0]
   \<and> length [Finite 0] = length [21 :: real]"
proof -
  note e = errors_raised [OF has_params_dict [of scenario_params]]
  have a: "calculate_energy_consumption [21, 21, 21] [10] (params_dict scenario_params)
       = Inl IndexError"
    using e [of "[21, 21, 21]" "[10]"] by simp
  have b: "calculate_energy_consumption [21] [] (params_dict scenario_params) = Inr [Finite 0]"
    using e [of "[21]" "[]"] by (simp add: vectorized_def)
  show ?thesis using a b has_params_dict by simp
qed

text \<open>
  C6, as stated, fails: on two empty sequences the read \<open>setpoints[0]\<close> raises IndexError;
  no empty sequence is returned.
\<close>

theorem empty_input_counterexample:
  "calculate_energy_consumption [] [] (params_dict scenario_params) = Inl IndexError
   \<and> calculate_energy_consumption [] [] (params_dict scenario_params) \<noteq> Inr []"
  by (simp add: calculate_energy_consumption_def extract_params_def dict_get_def params_dict_def
      scenario_params_def simulate_arrays_def init_state_def)

text \<open>
  C6, amended. When \<open>setpoints\<close> has length 0 (and the five parameters are present), the
  simulator raises IndexError and returns no energy sequence, whatever \<open>outdoor_temps\<close> is.
\<close>

theorem empty_input_raises:
  assumes "has_params building_params p"
  shows "calculate_energy_consumption [] outdoor_temps building_params = Inl IndexError"
  by (simp add: calc_has_params [OF assms] simulate_arrays_def init_state_def)

theorem empty_input_raises_witness:
  "has_params (params_dict scenario_params) scenario_params
   \<and> calculate_energy_consumption [] [] (params_dict scenario_params) = Inl IndexError"
  using empty_input_raises [OF has_params_dict [of scenario_params], of "[]"] has_params_dict
  by simp

lemma occupancy_loop_length:
  "length (occupancy_loop rnd its occ) = length occ"
  by (induction rnd its occ rule: occupancy_loop.induct) simp_all

lemma occupancy_loop_nth:
  "length occ = k + length ts \<Longrightarrow> j < k + length ts \<Longrightarrow>
   occupancy_loop rnd (enumerate k ts) occ ! j =
     (if j < k then occ ! j else occupancy_value (ts ! (j - k)) (rnd j))"
proof (induction ts arbitrary: k occ)
  case Nil
  then show ?case by simp
next
  case (Cons t ts)
  let ?occ = "occ[k := occupancy_value t (rnd k)]"
  have l: "length ?occ = Suc k + length ts" using Cons.prems(1) by simp
  have j: "j < Suc k + length ts" using Cons.prems(2) by simp
  have "occupancy_loop rnd (enumerate k (t # ts)) occ ! j
        = occupancy_loop rnd (enumerate (Suc k) ts) ?occ ! j"
    by simp
  also have "\<dots> = (if j < Suc k then ?occ ! j else occupancy_value (ts ! (j - Suc k)) (rnd j))"
    by (rule Cons.IH [OF l j])
  also have "\<dots> = (if j < k then occ ! j else occupancy_value ((t # ts) ! (j - k)) (rnd j))"
  proof (cases "j < k")
    case True
    then show ?thesis by simp
  next
    case False
    show ?thesis
    proof (cases "j = k")
      case True
      then show ?thesis using Cons.prems(1) by simp
    next
      case ne: False
      with False have "k < j" by simp
      then obtain m where "j - k = Suc m" and "j - Suc k = m"
        by (metis Suc_diff_Suc)
      with False \<open>k < j\<close> show ?thesis by simp
    qed
  qed
  finally show ?case .
qed

lemma length_timestamps: "length timestamps = n_samples"
  by (simp add: timestamps_def)

lemma load_data_occupancy_nth:
  assumes "i < n_samples"
  shows "load_data_occupancy rnd ! i = occupancy_value (timestamps ! i) (rnd i)"
proof -
  have "occupancy_loop rnd (enumerate 0 timestamps) (replicate n_samples 0) ! i =
     (if i < 0 then replicate n_samples 0 ! i
      else occupancy_value (timestamps ! (i - 0)) (rnd i))"
    by (rule occupancy_loop_nth) (simp_all add: length_timestamps assms)
  then show ?thesis by (simp add: load_data_occupancy_def)
qed

lemma occupancy_value_range:
  assumes "0 \<le> r" and "r < 1"
  shows "fst (spec_occupancy_range ts) \<le> occupancy_value ts r
         \<and> occupancy_value ts r < snd (spec_occupancy_range ts)
         \<and> 0 \<le> occupancy_value ts r \<and> occupancy_value ts r \<le> 1"
  using assms by (simp add: spec_occupancy_range_def occupancy_value_def)

section \<open>Claims about the synthetic dataset\<close>

text \<open>
  C8. Every sample of the generated series has an occupancy inside the range of its
  calendar position: \<open>[0.7, 1.0)\<close> on weekdays from 8 to 18, \<open>[0.3, 0.6)\<close> on weekdays in
  the hours 7 and 18, \<open>[0, 0.1)\<close> in the other weekday hours, \<open>[0, 0.2)\<close> at weekends;
  so it lies in \<open>[0, 1]\<close>. The random draws lie in \<open>[0, 1)\<close>, as \<open>np.random.random\<close>
  promises.
\<close>

theorem occupancy_in_range:
  assumes "\<forall>i. 0 \<le> rnd i \<and> rnd i < 1" and "i < length timestamps"
  shows "length (load_data_occupancy rnd) = length timestamps
         \<and> fst (spec_occupancy_range (timestamps ! i)) \<le> load_data_occupancy rnd ! i
         \<and> load_data_occupancy rnd ! i < snd (spec_occupancy_range (timestamps ! i))
         \<and> 0 \<le> load_data_occupancy rnd ! i \<and> load_data_occupancy rnd ! i \<le> 1"
proof -
  have i: "i < n_samples" using assms(2) by (simp add: length_timestamps)
  have r: "0 \<le> rnd i" "rnd i < 1" using assms(1) by simp_all
  have l: "length (load_data_occupancy rnd) = length timestamps"
    by (simp add: load_data_occupancy_def occupancy_loop_length length_timestamps)
  show ?thesis
    using occupancy_value_range [OF r, of "timestamps ! i"] l
    by (simp only: load_data_occupancy_nth [OF i]) 
qed

theorem occupancy_in_range_witness:
  "(\<forall>i. 0 \<le> (\<lambda>_. 1 / 2 :: real) i \<and> (\<lambda>_. 1 / 2 :: real) i < 1)
   \<and> 8 < length timestamps \<and> 18 < length timestamps \<and> 3 < length timestamps
   \<and> 130 < length timestamps
   \<and> timestamps ! 8 = \<lparr>dayofweek = 0, hour = 8\<rparr>
   \<and> 0.7 \<le> load_data_occupancy (\<lambda>_. 1 / 2) ! 8 \<and> load_data_occupancy (\<lambda>_. 1 / 2) ! 8 < 1
   \<and> timestamps ! 18 = \<lparr>dayofweek = 0, hour = 18\<rparr>
   \<and> 0.3 \<le> load_data_occupancy (\<lambda>_. 1 / 2) ! 18 \<and> load_data_occupancy (\<lambda>_. 1 / 2) ! 18 < 0.6
   \<and> timestamps ! 3 = \<lparr>dayofweek = 0, hour = 3\<rparr>
   \<and> 0 \<le> load_data_occupancy (\<lambda>_. 1 / 2) ! 3 \<and> load_data_occupancy (\<lambda>_. 1 / 2) ! 3 < 0.1
   \<and> timestamps ! 130 = \<lparr>dayofweek = 5, hour = 10\<rparr>
   \<and> 0 \<le> load_data_occupancy (\<lambda>_. 1 / 2) ! 130 \<and> load_data_occupancy (\<lambda>_. 1 / 2) ! 130 < 0.2"
proof -
  have r: "\<forall>i. 0 \<le> (\<lambda>_. 1 / 2 :: real) i \<and> (\<lambda>_. 1 / 2 :: real) i < 1" by simp
  have l: "8 < length timestamps" "18 < length timestamps" "3 < length timestamps"
    "130 < length timestamps"
    by (simp_all add: timestamps_def n_samples_def)
  have t: "timestamps ! 8 = \<lparr>dayofweek = 0, hour = 8\<rparr>"
    "timestamps ! 18 = \<lparr>dayofweek = 0, hour = 18\<rparr>"
    "timestamps ! 3 = \<lparr>dayofweek = 0, hour = 3\<rparr>"
    "timestamps ! 130 = \<lparr>dayofweek = 5, hour = 10\<rparr>"
    by (simp_all add: timestamps_def n_samples_def)
  note o = occupancy_in_range [OF r]
  show ?thesis
    using o [OF l(1)] o [OF l(2)] o [OF l(3)] o [OF l(4)] l
    by (simp add: t spec_occupancy_range_def)
qed

section \<open>Claims about the scenario comparison\<close>

lemma lstm_column_pad:
  assumes "lstm \<noteq> []" and "length lstm < n"
  shows "lstm_column n lstm = Inr (replicate (n - length lstm) (hd lstm) @ lstm)"
  using assms by (cases lstm) (simp_all add: lstm_column_def set_column_def)

lemma lstm_column_cut:
  assumes "n \<le> length lstm"
  shows "lstm_column n lstm = Inr (take n lstm)"
  using assms by (simp add: lstm_column_def set_column_def)

lemma lstm_column_length: "lstm_column n lstm = Inr col \<Longrightarrow> length col = n"
  by (auto simp: lstm_column_def set_column_def split: if_splits list.splits)

lemma simple_energy_nth:
  "i < length setpoint \<Longrightarrow> i < length outdoor \<Longrightarrow>
   simple_energy setpoint outdoor ! i = \<bar>setpoint ! i - outdoor ! i\<bar> * 0.1"
  by (simp add: simple_energy_def)

lemma simulate_control_Inr:
  assumes "simulate_control outdoor mlp lstm = Inr d"
  shows "length mlp = length outdoor \<and> mlp_setpoint d = mlp
         \<and> lstm_column (length outdoor) lstm = Inr (lstm_setpoint d)
         \<and> outdoor_temp d = outdoor
         \<and> mlp_energy d = simple_energy (mlp_setpoint d) outdoor
         \<and> lstm_energy d = simple_energy (lstm_setpoint d) outdoor
         \<and> baseline_energy d = map (\<lambda>t. \<bar>22 - t\<bar> * 0.1) outdoor"
proof (cases "length mlp = length outdoor")
  case False
  with assms show ?thesis by (simp add: simulate_control_def set_column_def)
next
  case True
  show ?thesis
  proof (cases "lstm_column (length outdoor) lstm")
    case (Inl e)
    with assms True show ?thesis by (simp add: simulate_control_def set_column_def)
  next
    case (Inr col)
    with assms True show ?thesis by (auto simp: simulate_control_def set_column_def)
  qed
qed

text \<open>
  C3, as stated, fails: the comparison never calls the thermal simulator (it has no
  building parameters to call it with). For setpoints \<open>[21, 21]\<close> against outdoor
  temperatures \<open>[10, 10]\<close> it charges \<open>1.1\<close> at both steps, where the simulator of the
  scenario building returns \<open>[0, 22/3]\<close>.
\<close>

theorem comparison_not_simulator_counterexample:
  "simulate_control [10, 10] [21, 21] [21, 21] =
     Inr \<lparr>outdoor_temp = [10, 10], mlp_setpoint = [21, 21], lstm_setpoint = [21, 21],
          mlp_energy = [11 / 10, 11 / 10], lstm_energy = [11 / 10, 11 / 10],
          baseline_energy = [12 / 10, 12 / 10]\<rparr>
   \<and> calculate_energy_consumption [21, 21] [10, 10] (params_dict scenario_params)
       = Inr [Finite 0, Finite (22 / 3)]
   \<and> map Finite [11 / 10, 11 / 10] \<noteq> [Finite 0, Finite (22 / 3)]"
  by (simp add: simulate_control_def set_column_def lstm_column_def simple_energy_def
      calculate_energy_consumption_def extract_params_def dict_get_def params_dict_def
      scenario_params_def simulate_arrays_def init_state_def loop_body_def Let_def np_div_def
      energy_required_def upt_rec)

text \<open>
  C3, amended. For the MLP and the LSTM setpoint sequence and for the constant 22 degree
  baseline, the comparison computes the energy of each step by the simplified model
  \<open>0.1 * |setpoint[i] - outdoor_temp[i]|\<close>, sums each sequence to a total, and reports
  \<open>(1 - model_total / baseline_total) * 100\<close> as the savings of each model (for a non-zero
  baseline total).
\<close>

theorem comparison_simplified_energy:
  assumes "simulate_control outdoor mlp_predictions lstm_predictions = Inr d"
  shows "(\<forall>i < length outdoor.
            mlp_energy d ! i = \<bar>mlp_setpoint d ! i - outdoor ! i\<bar> * 0.1
          \<and> lstm_energy d ! i = \<bar>lstm_setpoint d ! i - outdoor ! i\<bar> * 0.1
          \<and> baseline_energy d ! i = \<bar>22 - outdoor ! i\<bar> * 0.1)
         \<and> length (mlp_energy d) = length outdoor \<and> length (lstm_energy d) = length outdoor
         \<and> length (baseline_energy d) = length outdoor
         \<and> mlp_total (plot_results d) = sum_list (mlp_energy d)
         \<and> lstm_total (plot_results d) = sum_list (lstm_energy d)
         \<and> baseline_total (plot_results d) = sum_list (baseline_energy d)
         \<and> (baseline_total (plot_results d) \<noteq> 0 \<longrightarrow>
              mlp_savings (plot_results d)
                = Finite ((1 - mlp_total (plot_results d) / baseline_total (plot_results d)) * 100)
            \<and> lstm_savings (plot_results d)
                = Finite ((1 - lstm_total (plot_results d) / baseline_total (plot_results d)) * 100))"
proof -
  note s = simulate_control_Inr [OF assms]
  have lm: "length (mlp_setpoint d) = length outdoor" using s by simp
  have ll: "length (lstm_setpoint d) = length outdoor"
    using s lstm_column_length by blast
  have e: "\<forall>i < length outdoor.
            mlp_energy d ! i = \<bar>mlp_setpoint d ! i - outdoor ! i\<bar> * 0.1
          \<and> lstm_energy d ! i = \<bar>lstm_setpoint d ! i - outdoor ! i\<bar> * 0.1
          \<and> baseline_energy d ! i = \<bar>22 - outdoor ! i\<bar> * 0.1"
    using s lm ll by (simp add: simple_energy_nth)
  have n: "length (mlp_energy d) = length outdoor" "length (lstm_energy d) = length outdoor"
    "length (baseline_energy d) = length outdoor"
    using s lm ll by (simp_all add: simple_energy_def)
  have p: "mlp_total (plot_results d) = sum_list (mlp_energy d)"
    "lstm_total (plot_results d) = sum_list (lstm_energy d)"
    "baseline_total (plot_results d) = sum_list (baseline_energy d)"
    by (simp_all add: plot_results_def)
  have v: "baseline_total (plot_results d) \<noteq> 0 \<longrightarrow>
              mlp_savings (plot_results d)
                = Finite ((1 - mlp_total (plot_results d) / baseline_total (plot_results d)) * 100)
            \<and> lstm_savings (plot_results d)
                = Finite ((1 - lstm_total (plot_results d) / baseline_total (plot_results d)) * 100)"
    by (simp add: plot_results_def savings_pct_def np_div_def)
  from e n p v show ?thesis by blast
qed

theorem comparison_simplified_energy_witness:
  "simulate_control [10, 20] [21, 21] [20] =
     Inr \<lparr>outdoor_temp = [10, 20], mlp_setpoint = [21, 21], lstm_setpoint = [20, 20],
          mlp_energy = [11 / 10, 1 / 10], lstm_energy = [1, 0],
          baseline_energy = [12 / 10, 2 / 10]\<rparr>
   \<and> (1 :: nat) < length [10, 20 :: real]
   \<and> [11 / 10, 1 / 10 :: real] ! 1 = \<bar>[21, 21] ! 1 - [10, 20] ! 1\<bar> * 0.1
   \<and> baseline_total (plot_results
        \<lparr>outdoor_temp = [10, 20], mlp_setpoint = [21, 21], lstm_setpoint = [20, 20],
          mlp_energy = [11 / 10, 1 / 10], lstm_energy = [1, 0],
          baseline_energy = [12 / 10, 2 / 10]\<rparr>) \<noteq> 0
   \<and> mlp_savings (plot_results
        \<lparr>outdoor_temp = [10, 20], mlp_setpoint = [21, 21], lstm_setpoint = [20, 20],
          mlp_energy = [11 / 10, 1 / 10], lstm_energy = [1, 0],
          baseline_energy = [12 / 10, 2 / 10]\<rparr>) = Finite (100 / 7)
   \<and> lstm_savings (plot_results
        \<lparr>outdoor_temp = [10, 20], mlp_setpoint = [21, 21], lstm_setpoint = [20, 20],
          mlp_energy = [11 / 10, 1 / 10], lstm_energy = [1, 0],
          baseline_energy = [12 / 10, 2 / 10]\<rparr>) = Finite (200 / 7)"
proof -
  let ?d = "\<lparr>outdoor_temp = [10, 20], mlp_setpoint = [21, 21], lstm_setpoint = [20, 20],
          mlp_energy = [11 / 10, 1 / 10 :: real], lstm_energy = [1, 0],
          baseline_energy = [12 / 10, 2 / 10]\<rparr>"
  have h: "simulate_control [10, 20] [21, 21] [20] = Inr ?d"
    by (simp add: simulate_control_def set_column_def lstm_column_def simple_energy_def)
  have b: "baseline_total (plot_results ?d) \<noteq> 0"
    by (simp add: plot_results_def)
  note c = comparison_simplified_energy [OF h]
  have i: "[11 / 10, 1 / 10 :: real] ! 1 = \<bar>[21, 21] ! 1 - [10, 20] ! 1\<bar> * 0.1"
    by simp
  have m0: "mlp_savings (plot_results ?d)
              = Finite ((1 - mlp_total (plot_results ?d) / baseline_total (plot_results ?d)) * 100)"
    "lstm_savings (plot_results ?d)
              = Finite ((1 - lstm_total (plot_results ?d) / baseline_total (plot_results ?d)) * 100)"
    using c b by blast+
  have m: "mlp_savings (plot_results ?d) = Finite (100 / 7)"
    "lstm_savings (plot_results ?d) = Finite (200 / 7)"
    using m0 by (simp_all add: plot_results_def)
  show ?thesis using h b i m by simp
qed

lemma predict_lstm_length:
  assumes "sequence_length \<le> length X" and "0 < sequence_length"
  shows "\<exists>ps. predict_lstm lstm_net sequence_length X = Inr ps
              \<and> length ps = length X + 1 - sequence_length"
proof -
  have "X \<noteq> []" using assms by auto
  moreover have "[0..<length X + 1 - sequence_length] \<noteq> []" using assms(1) by simp
  ultimately show ?thesis by (simp add: predict_lstm_def Let_def)
qed

lemma simulate_control_padded:
  assumes "length mlp = length outdoor" and "lstm \<noteq> []" and "length lstm < length outdoor"
  shows "\<exists>d. simulate_control outdoor mlp lstm = Inr d
            \<and> outdoor_temp d = outdoor \<and> mlp_setpoint d = mlp
            \<and> lstm_setpoint d = replicate (length outdoor - length lstm) (lstm ! 0) @ lstm"
proof -
  have "hd lstm = lstm ! 0" using assms(2) by (simp add: hd_conv_nth)
  then show ?thesis
    using assms by (simp add: simulate_control_def set_column_def lstm_column_pad)
qed

text \<open>
  C4. In a run of \<open>simulate_control\<close> over a window of \<open>24 * days\<close> rows, the MLP sequence
  has the length of the window and the LSTM sequence is 23 predictions shorter. Every model
  whose sequence is shorter than the window has its setpoint column padded on the left with
  its first prediction, and every setpoint column has exactly the length of the window.
\<close>

theorem shorter_predictions_left_padded:
  assumes "0 < days" and "24 * days < length data" and "start_idx < length data - 24 * days"
  shows "\<exists>d mlp_predictions lstm_predictions.
           predict_mlp mlp_net (map snd (take (24 * days) (drop start_idx data)))
             = Inr mlp_predictions
         \<and> predict_lstm lstm_net 24 (map snd (take (24 * days) (drop start_idx data)))
             = Inr lstm_predictions
         \<and> simulate_control_days mlp_net lstm_net data start_idx days = Inr d
         \<and> length (outdoor_temp d) = 24 * days
         \<and> length mlp_predictions = 24 * days
         \<and> length lstm_predictions = 24 * days - 23
         \<and> lstm_setpoint d = replicate 23 (lstm_predictions ! 0) @ lstm_predictions
         \<and> (\<forall>(predictions, setpoint) \<in>
                set [(mlp_predictions, mlp_setpoint d), (lstm_predictions, lstm_setpoint d)].
              length setpoint = length (outdoor_temp d)
              \<and> (length predictions < length (outdoor_temp d) \<longrightarrow>
                   setpoint = replicate (length (outdoor_temp d) - length predictions)
                                (predictions ! 0) @ predictions))"
proof -
  let ?rows = "take (24 * days) (drop start_idx data)"
  let ?X = "map snd ?rows"
  let ?n = "24 * days"
  have n: "length ?rows = ?n" using assms(2,3) by simp
  have X: "length ?X = ?n" using n by simp
  have ne: "?X \<noteq> []" using X assms(1) by auto
  have m: "predict_mlp mlp_net ?X = Inr (map mlp_net ?X)"
    using ne by (simp add: predict_mlp_def)
  have "24 \<le> length ?X" using X assms(1) by simp
  from predict_lstm_length [OF this, of lstm_net]
  obtain ps where ps: "predict_lstm lstm_net 24 ?X = Inr ps" and lps: "length ps = ?n + 1 - 24"
    using X by auto
  have lps': "length ps = ?n - 23" using lps by simp
  have short: "length ps < length (map fst ?rows)" using lps' n assms(1) by simp
  have pne: "ps \<noteq> []" using lps' assms(1) by auto
  have lm: "length (map mlp_net ?X) = length (map fst ?rows)" by simp
  from simulate_control_padded [OF lm pne short]
  obtain d where d: "simulate_control (map fst ?rows) (map mlp_net ?X) ps = Inr d"
    and o: "outdoor_temp d = map fst ?rows" and ms: "mlp_setpoint d = map mlp_net ?X"
    and ls: "lstm_setpoint d = replicate (length (map fst ?rows) - length ps) (ps ! 0) @ ps"
    by blast
  have run: "simulate_control_days mlp_net lstm_net data start_idx days = Inr d"
    using assms(2) m ps d by (simp add: simulate_control_days_def Let_def)
  have lo: "length (outdoor_temp d) = ?n" using o n by simp
  have k: "length (map fst ?rows) - length ps = 23" using lps' n assms(1) by simp
  have ls': "lstm_setpoint d = replicate 23 (ps ! 0) @ ps" using ls k by simp
  have lls: "length (lstm_setpoint d) = ?n" using ls' lps' assms(1) by simp
  have lms: "length (mlp_setpoint d) = ?n" using ms X by simp
  have all: "\<forall>(predictions, setpoint) \<in> set [(map mlp_net ?X, mlp_setpoint d), (ps, lstm_setpoint d)].
              length setpoint = length (outdoor_temp d)
              \<and> (length predictions < length (outdoor_temp d) \<longrightarrow>
                   setpoint = replicate (length (outdoor_temp d) - length predictions)
                                (predictions ! 0) @ predictions)"
    using lo lls lms ls' lps' X assms(1) by simp
  have lmp: "length (map mlp_net ?X) = ?n" using X by simp
  from m ps run lo lmp lps' ls' all show ?thesis by blast
qed

theorem shorter_predictions_left_padded_witness:
  "(0 :: nat) < 1 \<and> 24 * 1 < length (map (\<lambda>i. (real i, i)) [0..<30])
   \<and> 3 < length (map (\<lambda>i. (real i, i)) [0..<30]) - 24 * 1
   \<and> predict_lstm (\<lambda>w. real (hd w)) 24
        (map snd (take (24 * 1) (drop 3 (map (\<lambda>i. (real i, i)) [0..<30])))) = Inr [3]
   \<and> (\<exists>d. simulate_control_days real (\<lambda>w. real (hd w)) (map (\<lambda>i. (real i, i)) [0..<30]) 3 1
              = Inr d
          \<and> length (outdoor_temp d) = 24 \<and> length (mlp_setpoint d) = 24
          \<and> lstm_setpoint d = replicate 23 3 @ [3])"
proof -
  let ?data = "map (\<lambda>i. (real i, i)) [0..<30]"
  have h: "(0 :: nat) < 1" "24 * 1 < length ?data" "3 < length ?data - 24 * 1" by simp_all
  have X: "map snd (take (24 * 1) (drop 3 ?data)) = [3..<27]"
    by (simp add: take_map drop_map o_def)
  have p: "predict_lstm (\<lambda>w. real (hd w)) 24 (map snd (take (24 * 1) (drop 3 ?data))) = Inr [3]"
    unfolding X by (simp add: predict_lstm_def Let_def)
  from shorter_predictions_left_padded [OF h, of real "\<lambda>w. real (hd w)"]
  obtain d mp lp where
    lp: "predict_lstm (\<lambda>w. real (hd w)) 24 (map snd (take (24 * 1) (drop 3 ?data))) = Inr lp"
    and run: "simulate_control_days real (\<lambda>w. real (hd w)) ?data 3 1 = Inr d"
    and lo: "length (outdoor_temp d) = 24 * 1"
    and ls: "lstm_setpoint d = replicate 23 (lp ! 0) @ lp"
    and al: "\<forall>(predictions, setpoint) \<in> set [(mp, mlp_setpoint d), (lp, lstm_setpoint d)].
              length setpoint = length (outdoor_temp d)
              \<and> (length predictions < length (outdoor_temp d) \<longrightarrow>
                   setpoint = replicate (length (outdoor_temp d) - length predictions)
                                (predictions ! 0) @ predictions)"
    by blast
  have "lp = [3]" using lp p by simp
  then have "lstm_setpoint d = replicate 23 3 @ [3]" using ls by simp
  moreover have "length (mlp_setpoint d) = 24" using al lo by simp
  ultimately have "\<exists>d. simulate_control_days real (\<lambda>w. real (hd w)) ?data 3 1 = Inr d
          \<and> length (outdoor_temp d) = 24 \<and> length (mlp_setpoint d) = 24
          \<and> lstm_setpoint d = replicate 23 3 @ [3]"
    using run lo by simp
  with h p show ?thesis by blast
qed

end
